theory Spec2Isabelle
  imports Complex_Main
begin

section \<open>The example runner: examples/tools/run\_all\_examples.py\<close>

text \<open>
  The script is a sequence of module-level statements. Everything it does is an effect on
  its surroundings, so the model returns the list of effects in the order in which the
  script performs them. What the surroundings answer (which imports succeed, which
  files the glob finds, the exit status of a child process) is the record \<open>env\<close>.
\<close>

datatype import_outcome = Imported | Raises_ImportError | Raises_other

datatype event =
    Print string            \<comment> \<open>a print statement; its items joined by one space\<close>
  | PrintComma string       \<comment> \<open>a print statement ending in a comma: no newline\<close>
  | Flush                   \<comment> \<open>sys.stdout.flush()\<close>
  | Exit int                \<comment> \<open>sys.exit(n)\<close>
  | Import string           \<comment> \<open>exec("import m")\<close>
  | Mkdir string            \<comment> \<open>os.mkdir(path)\<close>
  | OpenW string            \<comment> \<open>open(path, 'w')\<close>
  | Spawn string string     \<comment> \<open>Popen(cmd, shell=True, stdout=the file opened at path); wait()\<close>
  | SpawnPiped string       \<comment> \<open>Popen(cmd, shell=True, stdout=PIPE); wait()\<close>
  | Uncaught string         \<comment> \<open>the script dies with an exception it does not catch\<close>

record env =
  import_result :: "string \<Rightarrow> import_outcome"  \<comment> \<open>of \<open>import pyNN.m\<close>, by m\<close>
  results_exists :: bool                       \<comment> \<open>os.path.exists("Results")\<close>
  scripts :: "string list"                     \<comment> \<open>glob.glob("../*.py")\<close>
  exit_status :: "string \<Rightarrow> int"              \<comment> \<open>what wait() returns for a shell command\<close>

subsection \<open>String helpers of the Python library\<close>

definition lower_char :: "char \<Rightarrow> char" where
  "lower_char c = (let n = (of_char c :: nat) in if 65 \<le> n \<and> n \<le> 90 then char_of (n + 32) else c)"

definition lower :: "string \<Rightarrow> string" where
  "lower s = map lower_char s"

fun join :: "string \<Rightarrow> string list \<Rightarrow> string" where
  "join sep [] = []"
| "join sep [x] = x"
| "join sep (x # y # ys) = x @ sep @ join sep (y # ys)"

definition basename :: "string \<Rightarrow> string" where
  "basename p = rev (takeWhile (\<lambda>c. c \<noteq> CHR ''/'') (rev p))"

definition drop_last3 :: "string \<Rightarrow> string" where
  \<comment> \<open>the slice \<open>s[:-3]\<close>\<close>
  "drop_last3 s = take (length s - 3) s"

subsection \<open>The tables of the script\<close>

definition default_simulators :: "string list" where
  "default_simulators = [''MOCK'', ''NEST'', ''NEURON'', ''Brian'']"

definition exclude :: "(string \<times> string list) list" where
  "exclude =
    [(''MOCK'', [''nineml_neuron.py'']),
     (''NEURON'', [''nineml_neuron.py'']),
     (''NEST'', [''nineml_neuron.py'']),
     (''Brian'', [''nineml_neuron.py'', ''HH_cond_exp2.py'', ''HH_cond_exp.py'',
                  ''simpleRandomNetwork_csa.py'', ''simpleRandomNetwork.py'',
                  ''simple_STDP2.py'', ''simple_STDP.py''])]"

definition extra_args :: "(string \<times> string) list" where
  "extra_args =
    [(''VAbenchmarks.py'', ''CUBA''),
     (''VAbenchmarks2.py'', ''CUBA''),
     (''VAbenchmarks2-csa.py'', ''CUBA''),
     (''VAbenchmarks3.py'', ''CUBA'')]"

subsection \<open>Lines 5 to 13: the command line\<close>

definition usage_line :: string where
  "usage_line = ''Simulator must be one of:'' @ '' '' @ join '', '' default_simulators"

fun check_names :: "string list \<Rightarrow> event list option" where
  \<comment> \<open>the loop of lines 8 to 11; \<open>None\<close> when it runs to its end\<close>
  "check_names [] = None"
| "check_names (name # names) =
     (if name \<notin> set default_simulators then Some [Print usage_line, Exit 1]
      else check_names names)"

definition simulator_names :: "string list \<Rightarrow> string list" where
  \<comment> \<open>the value of \<open>simulator_names\<close> from line 15 on, for the arguments \<open>sys.argv[1:]\<close>\<close>
  "simulator_names argv = (if length argv > 0 then argv else default_simulators)"

subsection \<open>Lines 15 to 22: which simulators can be imported\<close>

fun import_loop :: "env \<Rightarrow> string list \<Rightarrow> string list \<Rightarrow> event list \<times> string list option" where
  \<comment> \<open>the list \<open>simulators\<close> is the accumulator; \<open>None\<close> when an import dies\<close>
  "import_loop e [] simulators = ([], Some simulators)"
| "import_loop e (simulator # rest) simulators =
     (let sim = lower simulator in
      case import_result e sim of
        Imported \<Rightarrow>
          (let (evs, r) = import_loop e rest (simulators @ [sim])
           in (Import (''pyNN.'' @ sim) # evs, r))
      | Raises_ImportError \<Rightarrow>
          (let (evs, r) = import_loop e rest simulators
           in (Import (''pyNN.'' @ sim) # evs, r))
      | Raises_other \<Rightarrow> ([Import (''pyNN.'' @ sim), Uncaught ''exec''], None))"

subsection \<open>Lines 41 to 57: running the examples\<close>

definition command :: "string \<Rightarrow> string \<Rightarrow> string" where
  \<comment> \<open>lines 47 to 49\<close>
  "command script simulator =
     (let script_name = basename script;
          cmd = ''python '' @ script @ '' '' @ lower simulator
      in case map_of extra_args script_name of
           Some extra \<Rightarrow> cmd @ '' '' @ extra
         | None \<Rightarrow> cmd)"

definition logfile :: "string \<Rightarrow> string \<Rightarrow> string" where
  \<comment> \<open>line 52\<close>
  "logfile script simulator = ''Results/'' @ basename script @ ''_'' @ simulator @ ''.log''"

definition verdict :: "int \<Rightarrow> string" where
  \<comment> \<open>line 55: \<open>retval == 0 and " - ok" or " - fail"\<close>\<close>
  "verdict retval = (if retval = 0 \<and> '' - ok'' \<noteq> [] then '' - ok'' else '' - fail'')"

definition run_script :: "env \<Rightarrow> string \<Rightarrow> string \<Rightarrow> event list" where
  \<comment> \<open>lines 47 to 55, for one script that is not excluded\<close>
  "run_script e simulator script =
     (let cmd = command script simulator;
          log = logfile script simulator
      in [PrintComma cmd, Flush, OpenW log, Spawn cmd log, Print (verdict (exit_status e cmd))])"

fun script_loop :: "env \<Rightarrow> string \<Rightarrow> string list \<Rightarrow> string list \<Rightarrow> event list" where
  \<comment> \<open>the loop of line 44, with \<open>excl = exclude[simulator]\<close>\<close>
  "script_loop e simulator excl [] = []"
| "script_loop e simulator excl (script # rest) =
     (if basename script \<notin> set excl
      then run_script e simulator script @ script_loop e simulator excl rest
      else script_loop e simulator excl rest)"

definition running_banner :: "string \<Rightarrow> string" where
  "running_banner simulator =
     [CHR 10, CHR 10, CHR 10] @ ''================== Running examples with '' @ simulator
       @ '' ================='' @ [CHR 10]"

definition unavailable_banner :: "string \<Rightarrow> string" where
  "unavailable_banner simulator =
     [CHR 10, CHR 10, CHR 10] @ ''================== '' @ simulator
       @ '' not available ================='' @ [CHR 10]"

fun simulator_loop :: "env \<Rightarrow> string list \<Rightarrow> string list \<Rightarrow> event list \<times> bool" where
  \<comment> \<open>the loop of line 41; the flag is False when \<open>exclude[simulator]\<close> raises KeyError\<close>
  "simulator_loop e simulators [] = ([], True)"
| "simulator_loop e simulators (simulator # rest) =
     (if lower simulator \<in> set simulators then
        (case map_of exclude simulator of
           None \<Rightarrow>
             (if scripts e = [] then
                (let (evs, ok) = simulator_loop e simulators rest
                 in (Print (running_banner simulator) # evs, ok))
              else ([Print (running_banner simulator), Uncaught ''KeyError''], False))
         | Some excl \<Rightarrow>
             (let (evs, ok) = simulator_loop e simulators rest
              in (Print (running_banner simulator) # script_loop e simulator excl (scripts e) @ evs, ok)))
      else
        (let (evs, ok) = simulator_loop e simulators rest
         in (Print (unavailable_banner simulator) # evs, ok)))"

subsection \<open>Lines 59 to 64: plotting\<close>

definition plotting_banner :: string where
  "plotting_banner =
     [CHR 10, CHR 10, CHR 10] @ ''================== Plotting results ================='' @ [CHR 10]"

fun plot_loop :: "string list \<Rightarrow> event list" where
  "plot_loop [] = []"
| "plot_loop (script # rest) =
     (let cmd = ''python plot_results.py '' @ drop_last3 (basename script)
      in Print cmd # SpawnPiped cmd # plot_loop rest)"

subsection \<open>The whole script\<close>

definition run_all :: "env \<Rightarrow> string list \<Rightarrow> event list" where
  \<comment> \<open>lines 15 to 64, for the value \<open>names\<close> of \<open>simulator_names\<close>\<close>
  "run_all e names =
     (let (imports, r) = import_loop e names []
      in case r of
           None \<Rightarrow> imports
         | Some simulators \<Rightarrow>
             (let mk = (if \<not> results_exists e then [Mkdir ''Results''] else []);
                  (runs, ok) = simulator_loop e simulators names
              in if ok then imports @ mk @ runs @ Print plotting_banner # plot_loop (scripts e)
                 else imports @ mk @ runs))"

definition main :: "env \<Rightarrow> string list \<Rightarrow> event list" where
  \<comment> \<open>the script, for the arguments \<open>sys.argv[1:]\<close>\<close>
  "main e argv =
     (case (if length argv > 0 then check_names argv else None) of
        Some evs \<Rightarrow> evs
      | None \<Rightarrow> run_all e (simulator_names argv))"

definition example_env :: env where
  \<comment> \<open>a run in which only pyNN.nest can be imported and every child succeeds\<close>
  "example_env = \<lparr>import_result = (\<lambda>m. if m = ''nest'' then Imported else Raises_ImportError),
     results_exists = False,
     scripts = [''../nineml_neuron.py'', ''../VAbenchmarks.py''],
     exit_status = (\<lambda>c. 0)\<rparr>"

section \<open>The NEURON wrapper: src/neuron2/\_neuron.py\<close>

text \<open>
  The module wraps objects of the embedded hoc interpreter in Python classes. The model
  keeps the two sides apart: Python objects are records with an instance dictionary, hoc
  objects live in a heap of the interpreter and are reached through references. What the
  interpreter itself decides (whether a command succeeds, which members a new object of
  a template has) is a field of the state \<open>interp\<close> that the model never fixes.
\<close>

datatype exn =
    AssertionError
  | NameError string
  | AttributeError string
  | LookupError string      \<comment> \<open>raised by the hoc module for a name hoc does not know\<close>
  | IndexError
  | TypeError
  | RuntimeError            \<comment> \<open>maximum recursion depth exceeded\<close>
  | HocError string

datatype pyval =
    PyNone
  | PyInt int
  | PyFloat rat
  | PyStr string
  | PyList "pyval list"
  | HocRef nat              \<comment> \<open>a hoc object, by its address in the interpreter\<close>
  | HocArray nat            \<comment> \<open>the element array \<open>x\<close> of the hoc Vector at that address\<close>
  | ClassAttr string        \<comment> \<open>an attribute found on the class: a method or class variable\<close>

datatype pyclass =
    PointProcess string     \<comment> \<open>the class returned by \<open>new_point_process(name)\<close>\<close>
  | HocClass string         \<comment> \<open>the class returned by \<open>new_hoc_class(name)\<close>\<close>
  | VectorC
  | IClampC
  | FileC

record pyobj =
  obj_class :: pyclass
  obj_dict :: "string \<rightharpoonup> pyval"

record interp =
  accepts :: "string \<Rightarrow> bool"                         \<comment> \<open>does hoc.execute(cmd) report success\<close>
  templates :: "string \<Rightarrow> pyval list \<Rightarrow> (string \<rightharpoonup> pyval)"
                                                      \<comment> \<open>the members of \<open>new T(args)\<close>\<close>
  executed :: "string list"                           \<comment> \<open>the commands hoc has been given\<close>
  logged :: "pyval list"                              \<comment> \<open>what \<open>logging.debug\<close> has written\<close>
  heap :: "nat \<rightharpoonup> (string \<rightharpoonup> pyval)"                 \<comment> \<open>the hoc objects and their members\<close>
  vectors :: "nat \<rightharpoonup> pyval list"                       \<comment> \<open>the elements of each hoc Vector\<close>
  next_ref :: nat
  section_stack :: "nat list"
  vector_n :: nat                                     \<comment> \<open>the class variable \<open>Vector.n\<close>\<close>

subsection \<open>Names\<close>

text \<open>
  A free name in a function is looked up in the globals of the module that defines the
  function, then in the builtins of Python 2, and raises NameError when neither has it.
  The globals of this module are the names it binds at its top level (lines 13 to 186)
  and those every module has. The functions below that use a free name take the globals
  as their first argument \<open>g\<close>; the module's own functions are those at
  \<open>module_globals\<close>.
\<close>

definition module_globals :: "string list" where
  "module_globals =
    [''__name__'', ''__doc__'', ''__file__'', ''__builtins__'',
     ''hoc'', ''nrn'', ''h'', ''dt'', ''xopen'', ''quit'', ''HocError'',
     ''new_point_process'', ''new_hoc_class'', ''hoc_execute'', ''hoc_comment'',
     ''psection'', ''init'', ''run'', ''Vector'', ''IClamp'', ''open'', ''File'',
     ''ExpSyn'', ''ParallelContext'']"

definition builtin_names :: "string list" where
  "builtin_names =
    [''ArithmeticError'', ''AssertionError'', ''AttributeError'', ''BaseException'',
     ''DeprecationWarning'', ''EOFError'', ''Ellipsis'', ''EnvironmentError'', ''Exception'',
     ''False'', ''FloatingPointError'', ''FutureWarning'', ''GeneratorExit'', ''IOError'',
     ''ImportError'', ''ImportWarning'', ''IndentationError'', ''IndexError'', ''KeyError'',
     ''KeyboardInterrupt'', ''LookupError'', ''MemoryError'', ''NameError'', ''None'',
     ''NotImplemented'', ''NotImplementedError'', ''OSError'', ''OverflowError'',
     ''PendingDeprecationWarning'', ''ReferenceError'', ''RuntimeError'', ''RuntimeWarning'',
     ''StandardError'', ''StopIteration'', ''SyntaxError'', ''SyntaxWarning'', ''SystemError'',
     ''SystemExit'', ''TabError'', ''True'', ''TypeError'', ''UnboundLocalError'',
     ''UnicodeDecodeError'', ''UnicodeEncodeError'', ''UnicodeError'',
     ''UnicodeTranslateError'', ''UnicodeWarning'', ''UserWarning'', ''ValueError'',
     ''Warning'', ''ZeroDivisionError'', ''__debug__'', ''__doc__'', ''__import__'',
     ''__name__'', ''abs'', ''all'', ''any'', ''apply'', ''basestring'', ''bool'', ''buffer'',
     ''callable'', ''chr'', ''classmethod'', ''cmp'', ''coerce'', ''compile'', ''complex'',
     ''copyright'', ''credits'', ''delattr'', ''dict'', ''dir'', ''divmod'', ''enumerate'',
     ''eval'', ''execfile'', ''exit'', ''file'', ''filter'', ''float'', ''frozenset'',
     ''getattr'', ''globals'', ''hasattr'', ''hash'', ''help'', ''hex'', ''id'', ''input'',
     ''int'', ''intern'', ''isinstance'', ''issubclass'', ''iter'', ''len'', ''license'',
     ''list'', ''locals'', ''long'', ''map'', ''max'', ''min'', ''object'', ''oct'', ''open'',
     ''ord'', ''pow'', ''property'', ''quit'', ''range'', ''raw_input'', ''reduce'',
     ''reload'', ''repr'', ''reversed'', ''round'', ''set'', ''setattr'', ''slice'',
     ''sorted'', ''staticmethod'', ''str'', ''sum'', ''super'', ''tuple'', ''type'',
     ''unichr'', ''unicode'', ''vars'', ''xrange'', ''zip'']"

datatype scope = Module_global | Builtin

definition resolve :: "string list \<Rightarrow> string \<Rightarrow> exn + scope" where
  "resolve g name =
     (if name \<in> set g then Inr Module_global
      else if name \<in> set builtin_names then Inr Builtin
      else Inl (NameError name))"

subsection \<open>Truth and text of a value\<close>

fun truthy :: "pyval \<Rightarrow> bool" where
  "truthy PyNone = False"
| "truthy (PyInt n) = (n \<noteq> 0)"
| "truthy (PyFloat q) = (q \<noteq> 0)"
| "truthy (PyStr s) = (s \<noteq> [])"
| "truthy (PyList xs) = (xs \<noteq> [])"
| "truthy (HocRef r) = True"
| "truthy (HocArray r) = True"
| "truthy (ClassAttr a) = True"

fun show_nat :: "nat \<Rightarrow> string" where
  "show_nat n =
     (if n < 10 then [char_of (48 + n)]
      else show_nat (n div 10) @ [char_of (48 + n mod 10)])"

declare show_nat.simps [simp del]


subsection \<open>Lines 64 to 75: hoc\_execute and hoc\_comment\<close>

definition logging_debug :: "string list \<Rightarrow> pyval \<Rightarrow> interp \<Rightarrow> (exn + unit) \<times> interp" where
  \<comment> \<open>the expression \<open>logging.debug(msg)\<close>\<close>
  "logging_debug g msg st =
     (case resolve g ''logging'' of
        Inl err \<Rightarrow> (Inl err, st)
      | Inr _ \<Rightarrow> (Inr (), st\<lparr>logged := logged st @ [msg]\<rparr>))"

definition hoc_dot_execute :: "pyval \<Rightarrow> interp \<Rightarrow> (exn + bool) \<times> interp" where
  \<comment> \<open>\<open>hoc.execute(cmd)\<close>: the interpreter runs a string and reports success\<close>
  "hoc_dot_execute cmd st =
     (case cmd of
        PyStr s \<Rightarrow> (Inr (accepts st s), st\<lparr>executed := executed st @ [s]\<rparr>)
      | _ \<Rightarrow> (Inl TypeError, st))"

definition hoc_error_message :: "pyval \<Rightarrow> string" where
  \<comment> \<open>\<open>'Error produced by hoc command "%s"' % cmd\<close>, for a string\<close>
  "hoc_error_message cmd =
     ''Error produced by hoc command '' @ [CHR 0x22] @ (case cmd of PyStr s \<Rightarrow> s | _ \<Rightarrow> [])
       @ [CHR 0x22]"

fun hoc_execute_loop :: "string list \<Rightarrow> pyval list \<Rightarrow> interp \<Rightarrow> (exn + unit) \<times> interp" where
  \<comment> \<open>lines 68 to 72\<close>
  "hoc_execute_loop g [] st = (Inr (), st)"
| "hoc_execute_loop g (cmd # rest) st =
     (case logging_debug g cmd st of
        (Inl err, st1) \<Rightarrow> (Inl err, st1)
      | (Inr _, st1) \<Rightarrow>
          (case hoc_dot_execute cmd st1 of
             (Inl err, st2) \<Rightarrow> (Inl err, st2)
           | (Inr success, st2) \<Rightarrow>
               (if \<not> success then (Inl (HocError (hoc_error_message cmd)), st2)
                else hoc_execute_loop g rest st2)))"

definition hoc_execute :: "string list \<Rightarrow> pyval \<Rightarrow> pyval \<Rightarrow> interp \<Rightarrow> (exn + unit) \<times> interp" where
  \<comment> \<open>\<open>hoc_execute(hoc_commands, comment)\<close>; the default of \<open>comment\<close> is \<open>PyNone\<close>\<close>
  "hoc_execute g hoc_commands comment st =
     (case hoc_commands of
        PyList cmds \<Rightarrow>
          (if truthy comment then
             (case logging_debug g comment st of
                (Inl err, st1) \<Rightarrow> (Inl err, st1)
              | (Inr _, st1) \<Rightarrow> hoc_execute_loop g cmds st1)
           else hoc_execute_loop g cmds st)
      | _ \<Rightarrow> (Inl AssertionError, st))"

definition hoc_comment :: "string list \<Rightarrow> pyval \<Rightarrow> interp \<Rightarrow> (exn + unit) \<times> interp" where
  "hoc_comment g comment st = logging_debug g comment st"

subsection \<open>Lines 177 to 183: open and File\<close>

definition open_fn :: "pyval \<Rightarrow> pyval \<Rightarrow> exn + pyval" where
  \<comment> \<open>the body is \<open>pass\<close>: the call returns None; the default of \<open>mode\<close> is \<open>PyStr ''r''\<close>\<close>
  "open_fn filename mode = Inr PyNone"

subsection \<open>Attributes of Python objects\<close>

definition object_attrs :: "string list" where
  \<comment> \<open>what every instance of a class derived from \<open>object\<close> finds on its class\<close>
  "object_attrs =
    [''__class__'', ''__delattr__'', ''__dict__'', ''__doc__'', ''__getattribute__'',
     ''__hash__'', ''__init__'', ''__module__'', ''__new__'', ''__reduce__'',
     ''__reduce_ex__'', ''__repr__'', ''__setattr__'', ''__str__'', ''__weakref__'']"

fun class_body :: "pyclass \<Rightarrow> string list" where
  \<comment> \<open>the names bound in the body of each class of the module\<close>
  "class_body (PointProcess name) = [''__init__'', ''__getattr__'']"
| "class_body (HocClass name) = [''__init__'', ''__getattr__'']"
| "class_body VectorC =
     [''n'', ''__init__'', ''__getattr__'', ''__len__'', ''__str__'', ''__repr__'',
      ''__getitem__'', ''__setitem__'', ''__getslice__'', ''__setslice__'', ''tolist'',
      ''record'']"
| "class_body IClampC = [''__init__'', ''__getattr__'', ''__setattr__'']"
| "class_body FileC = []"

definition object_getattribute :: "pyobj \<Rightarrow> string \<Rightarrow> exn + pyval" where
  \<comment> \<open>\<open>object.__getattribute__\<close>: the instance dictionary, then the class\<close>
  "object_getattribute self name =
     (case obj_dict self name of
        Some v \<Rightarrow> Inr v
      | None \<Rightarrow>
          (if name \<in> set (class_body (obj_class self)) \<or> name \<in> set object_attrs
           then Inr (ClassAttr name)
           else Inl (AttributeError name)))"


subsection \<open>Members of hoc objects\<close>

definition hoc_getattribute :: "interp \<Rightarrow> pyval \<Rightarrow> string \<Rightarrow> exn + pyval" where
  \<comment> \<open>\<open>ob.__getattribute__(name)\<close> and \<open>getattr(ob, name)\<close>; a Python scalar has no members here\<close>
  "hoc_getattribute st ob name =
     (case ob of
        HocRef r \<Rightarrow>
          (case heap st r of
             Some members \<Rightarrow>
               (case members name of Some v \<Rightarrow> Inr v | None \<Rightarrow> Inl (LookupError name))
           | None \<Rightarrow> Inl (LookupError name))
      | _ \<Rightarrow> Inl (AttributeError name))"


definition h_call :: "string \<Rightarrow> interp \<Rightarrow> interp" where
  \<comment> \<open>\<open>h(cmd)\<close>, its result dropped\<close>
  "h_call cmd st = st\<lparr>executed := executed st @ [cmd]\<rparr>"




subsection \<open>Attribute lookup with the classes' \_\_getattr\_\_\<close>

text \<open>
  \<open>py_getattr d st self name\<close> is the expression \<open>self.name\<close>: the lookup of
  \<open>object.__getattribute__\<close> and, when that raises AttributeError, the \<open>__getattr__\<close> of
  the object's class. The bodies of \<open>__getattr__\<close> (lines 39 to 43, 56 to 60, 106 to 107
  and 161 to 167) read attributes of \<open>self\<close> themselves, so the lookup is recursive; \<open>d\<close>
  bounds the nesting as the recursion limit of the Python interpreter does. Inside the
  classes made by \<open>new_point_process\<close> and \<open>new_hoc_class\<close> the private name \<open>__obj\<close> is
  \<open>_someclass__obj\<close>, inside \<open>IClamp\<close> it is \<open>_IClamp__obj\<close>.
\<close>

fun py_getattr :: "nat \<Rightarrow> interp \<Rightarrow> pyobj \<Rightarrow> string \<Rightarrow> exn + pyval" where
  "py_getattr 0 st self name = Inl RuntimeError"
| "py_getattr (Suc d) st self name =
     (case object_getattribute self name of
        Inr v \<Rightarrow> Inr v
      | Inl err \<Rightarrow>
          (case obj_class self of
             PointProcess cname \<Rightarrow>
               (case object_getattribute self name of
                  Inr v \<Rightarrow> Inr v
                | Inl _ \<Rightarrow>
                    (case py_getattr d st self ''_someclass__obj'' of
                       Inl err' \<Rightarrow> Inl err'
                     | Inr ob \<Rightarrow> hoc_getattribute st ob name))
           | HocClass cname \<Rightarrow>
               (case object_getattribute self name of
                  Inr v \<Rightarrow> Inr v
                | Inl _ \<Rightarrow>
                    (case py_getattr d st self ''_someclass__obj'' of
                       Inl err' \<Rightarrow> Inl err'
                     | Inr ob \<Rightarrow> hoc_getattribute st ob name))
           | VectorC \<Rightarrow>
               (case py_getattr d st self ''hoc_obj'' of
                  Inl err' \<Rightarrow> Inl err'
                | Inr ob \<Rightarrow> hoc_getattribute st ob name)
           | IClampC \<Rightarrow>
               (if name = ''delay'' then
                  (case py_getattr d st self ''_IClamp__obj'' of
                     Inl err' \<Rightarrow> Inl err'
                   | Inr ob \<Rightarrow> hoc_getattribute st ob ''del'')
                else if name \<in> {''amp'', ''dur''} then
                  (case py_getattr d st self ''_IClamp__obj'' of
                     Inl err' \<Rightarrow> Inl err'
                   | Inr ob \<Rightarrow> hoc_getattribute st ob name)
                else object_getattribute self name)
           | FileC \<Rightarrow> Inl err))"

subsection \<open>Lines 27 to 62: new\_point\_process and new\_hoc\_class\<close>

definition new_point_process :: "string \<Rightarrow> interp \<Rightarrow> pyclass \<times> interp" where
  "new_point_process name st =
     (PointProcess name,
      h_call (''obfunc new_'' @ name @ ''() { return new '' @ name @ ''($1) }'') st)"

definition new_hoc_class :: "string \<Rightarrow> interp \<Rightarrow> pyclass \<times> interp" where
  "new_hoc_class name st =
     (HocClass name,
      h_call (''obfunc new_'' @ name @ ''() { return new '' @ name @ ''() }'') st)"



subsection \<open>Lines 90 to 107: Vector\<close>





subsection \<open>Lines 150 to 175: IClamp\<close>



subsection \<open>An interpreter to run the definitions on\<close>

definition example_interp :: interp where
  \<comment> \<open>a fresh interpreter that refuses every command and whose objects have the members
      \<open>del\<close>, \<open>dur\<close>, \<open>amp\<close> and \<open>tau\<close>\<close>
  "example_interp =
     \<lparr>accepts = (\<lambda>cmd. False),
      templates = (\<lambda>t args. [''del'' \<mapsto> PyFloat 0, ''dur'' \<mapsto> PyFloat 0, ''amp'' \<mapsto> PyFloat 0,
                             ''tau'' \<mapsto> PyFloat 2]),
      executed = [], logged = [], heap = Map.empty, vectors = Map.empty,
      next_ref = 0, section_stack = [], vector_n = 0\<rparr>"

section \<open>The NEST adapter, as the specification and the tests describe it\<close>

text \<open>
  The adapter itself (pyNN/nest.py), the random module (pyNN/random.py) and the NEST
  kernel behind them are not among the sources: only their unit tests
  (test/nesttests.py) are. The definitions of this section are therefore modelled from
  the specification's words (identifiers handed out by the backend, weights converted
  from nA to pA, backend errors raised again as \<open>ConnectionError\<close>) and from what the
  tests call and expect. Numbers are rationals: the model multiplies exactly where the
  adapter multiplies in floating point.
\<close>

datatype nest_error = Assertion_failed | ConnectionError

record connection =
  target :: nat
  weight :: rat           \<comment> \<open>in pA, the unit of NEST\<close>

record nest_state =
  n_nodes :: nat                              \<comment> \<open>the nodes created since setup: GIDs 1 to n\<close>
  outgoing :: "nat \<Rightarrow> connection list"      \<comment> \<open>by source GID; the index is the port\<close>
  node_params :: "nat \<Rightarrow> (string \<rightharpoonup> rat)"  \<comment> \<open>what getDict returns for a node\<close>
  timestep :: rat
  min_delay :: rat
  max_delay :: rat
  nPop :: nat                                 \<comment> \<open>the counter behind the default labels\<close>

definition nest_setup :: "rat \<Rightarrow> rat \<Rightarrow> rat \<Rightarrow> nest_state" where
  \<comment> \<open>Modelled from the spec: \<open>nest.setup(timestep, min_delay, max_delay)\<close> of pyNN/nest.py,
      which is not among the sources; it resets the kernel, so that numbering starts again\<close>
  "nest_setup ts dmin dmax =
     \<lparr>n_nodes = 0, outgoing = (\<lambda>src. []), node_params = (\<lambda>gid. Map.empty),
      timestep = ts, min_delay = dmin, max_delay = dmax, nPop = 0\<rparr>"

datatype created = One nat | Many "nat list"

definition new_gids :: "nest_state \<Rightarrow> nat \<Rightarrow> nat list" where
  \<comment> \<open>Modelled from the spec: the backend numbers its nodes in the order of their creation,
      the first one 1\<close>
  "new_gids st k = [Suc (n_nodes st) ..< Suc (n_nodes st) + k]"

definition create :: "nest_state \<Rightarrow> int \<Rightarrow> nest_error + created \<times> nest_state" where
  \<comment> \<open>Modelled from the spec: \<open>nest.create(celltype, n=1)\<close> of pyNN/nest.py, which is not
      among the sources; one GID for \<open>n = 1\<close>, the list of GIDs otherwise, an assertion on
      \<open>n > 0\<close>\<close>
  "create st n =
     (if \<not> n > 0 then Inl Assertion_failed
      else
        (let ids = new_gids st (nat n);
             st' = st\<lparr>n_nodes := n_nodes st + nat n\<rparr>
         in Inr (if n = 1 then One (hd ids) else Many ids, st')))"

definition node_exists :: "nest_state \<Rightarrow> nat \<Rightarrow> bool" where
  \<comment> \<open>Modelled from the spec: a GID names a node when the backend has handed it out\<close>
  "node_exists st gid = (1 \<le> gid \<and> gid \<le> n_nodes st)"

definition connect ::
  "nest_state \<Rightarrow> nat \<Rightarrow> nat \<Rightarrow> rat option \<Rightarrow> rat option \<Rightarrow> nest_error + nat \<times> nest_state" where
  \<comment> \<open>Modelled from the spec: \<open>nest.connect(source, target, weight=None, delay=None)\<close> of
      pyNN/nest.py, which is not among the sources, for one source and one target; the
      weight is given in nA and stored in pA; a cell that does not exist or a delay
      outside the limits is the backend's error, raised again as ConnectionError; the result
      is the port, the number of the connection among those of its source. What the kernel
      keeps of the delay is not modelled\<close>
  "connect st pre post w d =
     (let w_nA = (case w of None \<Rightarrow> 0 | Some x \<Rightarrow> x);
          delay = (case d of None \<Rightarrow> min_delay st | Some x \<Rightarrow> x)
      in if \<not> node_exists st pre \<or> \<not> node_exists st post then Inl ConnectionError
         else if delay < min_delay st \<or> max_delay st < delay then Inl ConnectionError
         else Inr (length (outgoing st pre),
                   st\<lparr>outgoing := (outgoing st)
                        (pre := outgoing st pre @ [\<lparr>target = post, weight = w_nA * 1000\<rparr>])\<rparr>))"

definition getWeight :: "nest_state \<Rightarrow> nat \<Rightarrow> nat \<Rightarrow> rat option" where
  \<comment> \<open>Modelled from the spec: \<open>pynest.getWeight(source, port)\<close> of the NEST bindings, which
      are not among the sources\<close>
  "getWeight st src port =
     (if port < length (outgoing st src) then Some (weight (outgoing st src ! port)) else None)"

subsection \<open>Populations and projections\<close>

record population =
  pop_dims :: "nat list"
  pop_cells :: "nat list"       \<comment> \<open>the cell array, flattened row by row\<close>
  pop_label :: string

definition Population_init ::
  "nest_state \<Rightarrow> nat list \<Rightarrow> string option \<Rightarrow> nest_error + population \<times> nest_state" where
  \<comment> \<open>Modelled from the spec: \<open>Population(dims, celltype, label=None)\<close> of pyNN/nest.py, which
      is not among the sources; it creates as many cells as the shape has places and keeps
      them as an array of that shape; the default label counts the populations\<close>
  "Population_init st dims label =
     (case create st (int (prod_list dims)) of
        Inl err \<Rightarrow> Inl err
      | Inr (ids, st1) \<Rightarrow>
          Inr (\<lparr>pop_dims = dims,
                pop_cells = (case ids of One gid \<Rightarrow> [gid] | Many gids \<Rightarrow> gids),
                pop_label = (case label of None \<Rightarrow> ''population'' @ show_nat (nPop st)
                                           | Some l \<Rightarrow> l)\<rparr>,
               st1\<lparr>nPop := Suc (nPop st)\<rparr>))"

fun rows_of :: "nat \<Rightarrow> nat \<Rightarrow> 'a list \<Rightarrow> 'a list list" where
  \<comment> \<open>Modelled from the spec: the reshaping of a flat array into rows, as numpy does it\<close>
  "rows_of 0 cols xs = []"
| "rows_of (Suc r) cols xs = take cols xs # rows_of r cols (drop cols xs)"

definition cell_array :: "population \<Rightarrow> nat list list" where
  \<comment> \<open>Modelled from the spec: the attribute \<open>cell\<close> of a population of two dimensions\<close>
  "cell_array p = rows_of (pop_dims p ! 0) (pop_dims p ! 1) (pop_cells p)"

record projection =
  prj_conns :: "(nat \<times> nat) list"   \<comment> \<open>what \<open>connections()\<close> yields: source and port\<close>

definition set_weight :: "nest_state \<Rightarrow> nat \<times> nat \<Rightarrow> rat \<Rightarrow> nest_state" where
  \<comment> \<open>Modelled from the spec: the backend call that overwrites the weight, in pA, of the
      connection at a port of a source\<close>
  "set_weight st c w_pA =
     (case c of (src, port) \<Rightarrow>
        st\<lparr>outgoing := (outgoing st)
             (src := (outgoing st src)[port := (outgoing st src ! port)\<lparr>weight := w_pA\<rparr>])\<rparr>)"

definition setWeights :: "nest_state \<Rightarrow> projection \<Rightarrow> rat \<Rightarrow> nest_state" where
  \<comment> \<open>Modelled from the spec: \<open>Projection.setWeights(w)\<close> of pyNN/nest.py, which is not among
      the sources; w is in nA and every connection of the projection gets it, in pA\<close>
  "setWeights st prj w = foldl (\<lambda>s c. set_weight s c (w * 1000)) st (prj_conns prj)"

subsection \<open>Random distributions\<close>









definition example_nest :: nest_state where
  \<comment> \<open>the state the set-up of the connection tests leaves: timestep 0.1, delays between 0.1
      and 5, three cells and five spike sources\<close>
  "example_nest = (nest_setup (1/10) (1/10) 5)\<lparr>n_nodes := 8\<rparr>"

section \<open>Properties of the example runner\<close>

lemma check_names_iff:
  "check_names argv = (if \<exists>a\<in>set argv. a \<notin> set default_simulators then Some [Print usage_line, Exit 1] else None)"
  by (induction argv) auto

lemma usage_line_text: "usage_line = ''Simulator must be one of: MOCK, NEST, NEURON, Brian''"
  by (simp add: usage_line_def default_simulators_def)

lemma check_names_default: "check_names default_simulators = None"
  by (simp add: check_names_iff)

lemma default_nonempty: "length default_simulators > 0"
  by (simp add: default_simulators_def)

lemma main_default: "main e default_simulators = run_all e default_simulators"
  unfolding main_def simulator_names_def using default_nonempty check_names_default by simp

lemma main_no_args: "main e [] = run_all e default_simulators"
  unfolding main_def simulator_names_def by simp

text \<open>
  Claim C10. When the script is given arguments and one of them is not among
  \<open>MOCK\<close>, \<open>NEST\<close>, \<open>NEURON\<close>, \<open>Brian\<close>, all it does is print the line of allowed
  names and exit with status 1: the trace holds no import and no child process. Given no
  argument, it does what it does for the four default names.
\<close>

theorem main_rejects_unknown_simulator:
  "((\<exists>a\<in>set argv. a \<notin> set default_simulators) \<longrightarrow>
      main e argv = [Print ''Simulator must be one of: MOCK, NEST, NEURON, Brian'', Exit 1])
   \<and> main e [] = main e [''MOCK'', ''NEST'', ''NEURON'', ''Brian'']"
proof
  show "(\<exists>a\<in>set argv. a \<notin> set default_simulators) \<longrightarrow>
      main e argv = [Print ''Simulator must be one of: MOCK, NEST, NEURON, Brian'', Exit 1]"
  proof
    assume bad: "\<exists>a\<in>set argv. a \<notin> set default_simulators"
    then have "argv \<noteq> []" by auto
    with bad have "main e argv = [Print usage_line, Exit 1]"
      by (simp add: main_def check_names_iff)
    then show "main e argv = [Print ''Simulator must be one of: MOCK, NEST, NEURON, Brian'', Exit 1]"
      by (simp only: usage_line_text)
  qed
next
  have "main e [] = main e default_simulators"
    by (simp only: main_default main_no_args)
  then show "main e [] = main e [''MOCK'', ''NEST'', ''NEURON'', ''Brian'']"
    by (simp only: default_simulators_def)
qed

theorem main_rejects_unknown_simulator_witness:
  "main example_env [''NEST'', ''nest''] =
     [Print ''Simulator must be one of: MOCK, NEST, NEURON, Brian'', Exit 1]"
proof -
  have "\<exists>a\<in>set [''NEST'', ''nest'']. a \<notin> set default_simulators"
    by (simp add: default_simulators_def)
  with main_rejects_unknown_simulator [of "[''NEST'', ''nest'']" example_env]
  show ?thesis by blast
qed






lemma verdict_iff: "verdict r = '' - ok'' \<longleftrightarrow> r = 0"
  by (simp add: verdict_def)







section \<open>Properties of the NEURON wrapper\<close>

lemma logging_unbound: "resolve module_globals ''logging'' = Inl (NameError ''logging'')"
  by (simp add: resolve_def module_globals_def builtin_names_def)

lemma logging_debug_module:
  "logging_debug module_globals msg st = (Inl (NameError ''logging''), st)"
  by (simp add: logging_debug_def logging_unbound)

lemma hoc_execute_loop_module:
  "hoc_execute_loop module_globals cmds st =
     (if cmds = [] then (Inr (), st) else (Inl (NameError ''logging''), st))"
  by (cases cmds) (simp_all add: logging_debug_module)

lemma hoc_execute_module:
  "hoc_execute module_globals (PyList cmds) comment st =
     (if truthy comment \<or> cmds \<noteq> [] then (Inl (NameError ''logging''), st) else (Inr (), st))"
  by (simp add: hoc_execute_def logging_debug_module hoc_execute_loop_module)

lemma hoc_execute_not_list:
  "(\<forall>cmds. commands \<noteq> PyList cmds) \<Longrightarrow>
   hoc_execute g commands comment st = (Inl AssertionError, st)"
  by (cases commands) (simp_all add: hoc_execute_def)

lemma hoc_execute_outcomes:
  "hoc_execute module_globals commands comment st \<in>
     {(Inr (), st), (Inl (NameError ''logging''), st), (Inl AssertionError, st)}"
proof (cases "\<exists>cmds. commands = PyList cmds")
  case True
  then show ?thesis by (auto simp: hoc_execute_module)
next
  case False
  then show ?thesis by (simp add: hoc_execute_not_list)
qed

text \<open>
  Claim C4. In this module \<open>logging\<close> is bound nowhere, so: \<open>hoc_execute\<close> given a list
  that is not empty raises NameError for \<open>logging\<close> and leaves the interpreter as it
  was; so does every call of \<open>hoc_comment\<close>; \<open>hoc_execute\<close> returns normally only when
  its list is empty; it never raises HocError; and it never hands a command to hoc.
\<close>

theorem hoc_execute_raises_NameError:
  "(cmds \<noteq> [] \<longrightarrow>
      hoc_execute module_globals (PyList cmds) comment st = (Inl (NameError ''logging''), st))
   \<and> hoc_comment module_globals comment st = (Inl (NameError ''logging''), st)
   \<and> (fst (hoc_execute module_globals commands comment st) = Inr () \<longrightarrow> commands = PyList [])
   \<and> (\<forall>msg. fst (hoc_execute module_globals commands comment st) \<noteq> Inl (HocError msg))
   \<and> executed (snd (hoc_execute module_globals commands comment st)) = executed st"
proof (intro conjI)
  show "cmds \<noteq> [] \<longrightarrow>
      hoc_execute module_globals (PyList cmds) comment st = (Inl (NameError ''logging''), st)"
    by (simp add: hoc_execute_module)
  show "hoc_comment module_globals comment st = (Inl (NameError ''logging''), st)"
    by (simp add: hoc_comment_def logging_debug_module)
  show "fst (hoc_execute module_globals commands comment st) = Inr () \<longrightarrow> commands = PyList []"
  proof (cases "\<exists>cs. commands = PyList cs")
    case True
    then show ?thesis by (auto simp: hoc_execute_module split: if_splits)
  next
    case False
    then show ?thesis by (simp add: hoc_execute_not_list)
  qed
  show "\<forall>msg. fst (hoc_execute module_globals commands comment st) \<noteq> Inl (HocError msg)"
    using hoc_execute_outcomes [of commands comment st] by auto
  show "executed (snd (hoc_execute module_globals commands comment st)) = executed st"
    using hoc_execute_outcomes [of commands comment st] by auto
qed

theorem hoc_execute_raises_NameError_witness:
  "hoc_execute module_globals (PyList [PyStr ''create soma'']) PyNone example_interp
     = (Inl (NameError ''logging''), example_interp)
   \<and> fst (hoc_execute module_globals (PyList []) PyNone example_interp) = Inr ()"
proof -
  have ne: "[PyStr ''create soma''] \<noteq> []" by simp
  have e: "fst (hoc_execute module_globals (PyList []) PyNone example_interp) = Inr ()"
    by (simp add: hoc_execute_def)
  from hoc_execute_raises_NameError [of "[PyStr ''create soma'']" PyNone example_interp "PyList []"] ne e
  show ?thesis by blast
qed

lemma hoc_execute_with_logging:
  "''logging'' \<in> set g \<Longrightarrow> \<not> accepts st c \<Longrightarrow>
   fst (hoc_execute g (PyList [PyStr c]) PyNone st) = Inl (HocError (hoc_error_message (PyStr c)))"
  by (simp add: hoc_execute_def logging_debug_def resolve_def hoc_dot_execute_def)

text \<open>
  Claim C2, the part on \<open>hoc_execute\<close>. The claim asks for HocError, naming the command,
  when hoc reports failure. Here hoc refuses the command \<open>create soma\<close>: the module's
  \<open>hoc_execute\<close> raises NameError before the command reaches hoc, while the same
  function in a module that also binds \<open>logging\<close> raises the HocError of line 72.
\<close>

theorem hoc_execute_failing_command:
  "\<not> accepts example_interp ''create soma''
   \<and> hoc_execute module_globals (PyList [PyStr ''create soma'']) PyNone example_interp
       = (Inl (NameError ''logging''), example_interp)
   \<and> fst (hoc_execute (''logging'' # module_globals) (PyList [PyStr ''create soma'']) PyNone example_interp)
       = Inl (HocError (''Error produced by hoc command '' @ [CHR 0x22] @ ''create soma'' @ [CHR 0x22]))"
proof (intro conjI)
  show no: "\<not> accepts example_interp ''create soma''" by (simp add: example_interp_def)
  show "hoc_execute module_globals (PyList [PyStr ''create soma'']) PyNone example_interp
       = (Inl (NameError ''logging''), example_interp)"
    by (simp add: hoc_execute_module)
  have "''logging'' \<in> set (''logging'' # module_globals)" by simp
  from hoc_execute_with_logging [OF this no]
  show "fst (hoc_execute (''logging'' # module_globals) (PyList [PyStr ''create soma'']) PyNone example_interp)
       = Inl (HocError (''Error produced by hoc command '' @ [CHR 0x22] @ ''create soma'' @ [CHR 0x22]))"
    by (simp add: hoc_error_message_def)
qed

text \<open>
  Claim C9. The module's \<open>open\<close> returns None for every file name and mode; the name
  \<open>open\<close> resolves to the module's function although the builtins have one too; and the
  class \<open>File\<close> binds no name in its body, so that an attribute of a \<open>File\<close> object is
  whatever \<open>object\<close> finds.
\<close>

theorem open_returns_None:
  "open_fn filename mode = Inr PyNone
   \<and> resolve module_globals ''open'' = Inr Module_global
   \<and> ''open'' \<in> set builtin_names
   \<and> class_body FileC = []
   \<and> py_getattr (Suc d) st \<lparr>obj_class = FileC, obj_dict = m\<rparr> name
       = object_getattribute \<lparr>obj_class = FileC, obj_dict = m\<rparr> name"
proof (intro conjI)
  show "open_fn filename mode = Inr PyNone" by (simp add: open_fn_def)
  show "resolve module_globals ''open'' = Inr Module_global"
    by (simp add: resolve_def module_globals_def)
  show "''open'' \<in> set builtin_names" by (simp add: builtin_names_def)
  show "class_body FileC = []" by simp
  show "py_getattr (Suc d) st \<lparr>obj_class = FileC, obj_dict = m\<rparr> name
       = object_getattribute \<lparr>obj_class = FileC, obj_dict = m\<rparr> name"
    by (simp split: sum.splits)
qed

subsection \<open>Attribute lookup\<close>























text \<open>
  A \<open>Vector\<close> built from anything but an integer or a list never binds \<open>hoc_obj\<close>
  (lines 97 to 104): it has no hoc object, and a lookup that fails on it runs into the
  recursion limit, whatever the limit is.
\<close>

lemma Vector_without_hoc_obj:
  assumes "obj_class self = VectorC" and "obj_dict self ''hoc_obj'' = None"
  shows "object_getattribute self name = Inl err \<Longrightarrow> py_getattr d st self name = Inl RuntimeError"
proof (induction d arbitrary: name err)
  case 0
  show ?case by simp
next
  case (Suc d)
  have "object_getattribute self ''hoc_obj'' = Inl (AttributeError ''hoc_obj'')"
    using assms by (simp add: object_getattribute_def object_attrs_def)
  from Suc.IH [OF this] have "py_getattr d st self ''hoc_obj'' = Inl RuntimeError" .
  with Suc.prems assms(1) show ?case by simp
qed

section \<open>Properties of the modelled NEST adapter\<close>

lemma new_gids_first: "new_gids (nest_setup ts dmin dmax) k = [1 ..< Suc k]"
  by (simp add: new_gids_def nest_setup_def)

lemma create_first:
  "create (nest_setup ts dmin dmax) 1 = Inr (One 1, (nest_setup ts dmin dmax)\<lparr>n_nodes := 1\<rparr>)"
  by (simp add: create_def new_gids_def nest_setup_def Let_def)

lemma create_many:
  "k > 1 \<Longrightarrow> create (nest_setup ts dmin dmax) k
     = Inr (Many [1 ..< Suc (nat k)], (nest_setup ts dmin dmax)\<lparr>n_nodes := nat k\<rparr>)"
  by (simp add: create_def new_gids_first Let_def) (simp add: nest_setup_def)

lemma create_nonpositive: "n \<le> 0 \<Longrightarrow> create st n = Inl Assertion_failed"
  by (simp add: create_def)

lemma upt_9: "[1 ..< Suc 9] = [1, 2, 3, 4, 5, 6, 7, 8, 9::nat]"
  by (simp add: upt_rec)

lemma Population_3x3:
  "\<exists>p st. Population_init (nest_setup ts dmin dmax) [3, 3] label = Inr (p, st)
      \<and> cell_array p = [[1, 2, 3], [4, 5, 6], [7, 8, 9]]"
proof -
  have c: "create (nest_setup ts dmin dmax) 9
      = Inr (Many [1, 2, 3, 4, 5, 6, 7, 8, 9], (nest_setup ts dmin dmax)\<lparr>n_nodes := 9\<rparr>)"
    using create_many [of 9 ts dmin dmax] by (simp add: upt_rec)
  have r: "rows_of 3 3 [1, 2, 3, 4, 5, 6, 7, 8, 9::nat] = [[1, 2, 3], [4, 5, 6], [7, 8, 9]]"
    by (simp add: numeral_3_eq_3)
  let ?p = "\<lparr>pop_dims = [3, 3], pop_cells = [1, 2, 3, 4, 5, 6, 7, 8, 9::nat],
             pop_label = (case label of None \<Rightarrow> ''population'' @ show_nat (nPop (nest_setup ts dmin dmax))
                                       | Some l \<Rightarrow> l)\<rparr>"
  have "Population_init (nest_setup ts dmin dmax) [3, 3] label
      = Inr (?p, (nest_setup ts dmin dmax)\<lparr>n_nodes := 9, nPop := Suc (nPop (nest_setup ts dmin dmax))\<rparr>)"
    unfolding Population_init_def by (simp add: c)
  moreover have "cell_array ?p = [[1, 2, 3], [4, 5, 6], [7, 8, 9]]"
    unfolding cell_array_def using r by simp
  ultimately show ?thesis by blast
qed

text \<open>
  Claim C3, on the modelled adapter. After a setup the first cell created has GID 1;
  \<open>create\<close> with \<open>n = k\<close>, \<open>k > 1\<close>, returns the list of the GIDs 1 to k; \<open>create\<close> with
  \<open>n \<le> 0\<close> fails its assertion, in any state; and a population of shape (3, 3) created
  first has the cell array with the rows 1 2 3, 4 5 6 and 7 8 9.
\<close>

theorem create_numbers_cells_from_one:
  "(\<exists>st. create (nest_setup ts dmin dmax) 1 = Inr (One 1, st))
   \<and> (1 < k \<longrightarrow> (\<exists>st. create (nest_setup ts dmin dmax) k = Inr (Many [1 ..< Suc (nat k)], st)))
   \<and> (n \<le> 0 \<longrightarrow> create st0 n = Inl Assertion_failed)
   \<and> (\<exists>p st. Population_init (nest_setup ts dmin dmax) [3, 3] label = Inr (p, st)
         \<and> cell_array p = [[1, 2, 3], [4, 5, 6], [7, 8, 9]])"
  using create_first [of ts dmin dmax] create_many [of k ts dmin dmax]
    create_nonpositive [of n st0] Population_3x3 [of ts dmin dmax label]
  by blast

lemma upt_10: "[1 ..< Suc 10] = [1, 2, 3, 4, 5, 6, 7, 8, 9, 10::nat]"
  by (simp add: upt_rec)

theorem create_numbers_cells_from_one_witness:
  "(\<exists>st. create (nest_setup (1/10) (1/10) 5) 10 = Inr (Many [1, 2, 3, 4, 5, 6, 7, 8, 9, 10], st))
   \<and> create (nest_setup (1/10) (1/10) 5) (- 1) = Inl Assertion_failed"
proof -
  have a: "(1::int) < 10" and b: "(- 1::int) \<le> 0" by simp_all
  have n: "Suc (nat 10) = Suc 10" by simp
  from create_numbers_cells_from_one [of "1/10" "1/10" 5 10 "- 1" "nest_setup (1/10) (1/10) 5"] a b
  have "(\<exists>st. create (nest_setup (1/10) (1/10) 5) 10 = Inr (Many [1 ..< Suc (nat 10)], st))
     \<and> create (nest_setup (1/10) (1/10) 5) (- 1) = Inl Assertion_failed"
    by blast
  then show ?thesis by (simp only: n upt_10)
qed

lemma connect_weight:
  "connect st pre post (Some w) d = Inr (port, st') \<Longrightarrow> getWeight st' pre port = Some (w * 1000)"
  by (auto simp: connect_def getWeight_def Let_def split: if_splits)

lemma set_weight_length:
  "length (outgoing (set_weight st c W) src) = length (outgoing st src)"
  by (cases c) (simp add: set_weight_def)

lemma getWeight_set_weight:
  "getWeight (set_weight st c W) src port =
     (if c = (src, port) \<and> port < length (outgoing st src) then Some W else getWeight st src port)"
  by (cases c) (auto simp: set_weight_def getWeight_def nth_list_update)

lemma getWeight_foldl:
  "getWeight (foldl (\<lambda>s c. set_weight s c W) st cs) src port =
     (if (src, port) \<in> set cs \<and> port < length (outgoing st src) then Some W
      else getWeight st src port)"
proof (induction cs arbitrary: st)
  case Nil
  then show ?case by simp
next
  case (Cons c cs)
  show ?case
    by (simp add: Cons.IH set_weight_length getWeight_set_weight)
qed

text \<open>
  Claim C1, on the modelled adapter. A connection that \<open>connect\<close> has made with the
  weight w, in nA, has the weight \<open>w * 1000\<close> in the backend; and after
  \<open>setWeights\<close> with w on a projection whose connections the backend has, each of them
  has the weight \<open>w * 1000\<close>.
\<close>

theorem weights_stored_in_pA:
  "(connect st pre post (Some w) d = Inr (port, st') \<longrightarrow> getWeight st' pre port = Some (w * 1000))
   \<and> ((\<forall>c\<in>set (prj_conns prj). snd c < length (outgoing st (fst c))) \<longrightarrow>
        (\<forall>c\<in>set (prj_conns prj). getWeight (setWeights st prj w) (fst c) (snd c) = Some (w * 1000)))"
proof (intro conjI impI ballI)
  assume "connect st pre post (Some w) d = Inr (port, st')"
  then show "getWeight st' pre port = Some (w * 1000)" by (rule connect_weight)
next
  fix c
  assume ex: "\<forall>c\<in>set (prj_conns prj). snd c < length (outgoing st (fst c))"
    and c: "c \<in> set (prj_conns prj)"
  then have "snd c < length (outgoing st (fst c))" by blast
  with c show "getWeight (setWeights st prj w) (fst c) (snd c) = Some (w * 1000)"
    by (simp add: setWeights_def getWeight_foldl)
qed

theorem weights_stored_in_pA_witness:
  "(\<exists>st'. connect example_nest 4 1 (Some (1234 / 10000)) None = Inr (0, st')
        \<and> getWeight st' 4 0 = Some (1234 / 10)
        \<and> getWeight (setWeights st' \<lparr>prj_conns = [(4, 0)]\<rparr> (1234 / 1000)) 4 0 = Some 1234)"
proof -
  let ?st' = "example_nest\<lparr>outgoing := (outgoing example_nest)
                (4 := outgoing example_nest 4 @ [\<lparr>target = 1, weight = 1234 / 10000 * 1000\<rparr>])\<rparr>"
  have a: "connect example_nest 4 1 (Some (1234 / 10000)) None = Inr (0, ?st')"
    by (simp add: connect_def example_nest_def nest_setup_def node_exists_def Let_def)
  have b: "\<forall>c\<in>set (prj_conns \<lparr>prj_conns = [(4, 0)]\<rparr>). snd c < length (outgoing ?st' (fst c))"
    by (simp add: example_nest_def nest_setup_def)
  from weights_stored_in_pA [where st = example_nest and pre = 4 and post = 1 and w = "1234 / 10000" and d = None
      and port = 0 and st' = ?st'] a
  have g1: "getWeight ?st' 4 0 = Some (1234 / 10000 * 1000)" by blast
  from weights_stored_in_pA [where st = ?st' and prj = "\<lparr>prj_conns = [(4, 0)]\<rparr>" and w = "1234 / 1000"] b
  have g2: "getWeight (setWeights ?st' \<lparr>prj_conns = [(4, 0)]\<rparr> (1234 / 1000)) 4 0 = Some (1234 / 1000 * 1000)"
    by simp
  from a g1 g2 show ?thesis by simp
qed

text \<open>
  The modelled \<open>connect\<close> answers a cell that does not exist and a delay outside the
  limits with \<open>ConnectionError\<close> (the part of claim C2 on the adapter).
\<close>

lemma connect_errors:
  "\<not> node_exists st pre \<or> \<not> node_exists st post \<or> delay < min_delay st \<or> max_delay st < delay
   \<Longrightarrow> connect st pre post w (Some delay) = Inl ConnectionError"
  by (auto simp: connect_def Let_def)










end
